theory Spec2Isabelle
  imports Complex_Main
begin

section \<open>Keras utility layers of efficientdet/keras/utils_keras.py\<close>

text \<open>
  The module defines three Keras layers: \<open>ActivationFn\<close>, \<open>BatchNormAct\<close> and
  \<open>DropConnect\<close>. Each class is modelled by a record of the attributes its
  constructor sets, its \<open>__init__\<close> by a function into \<open>error + record\<close> (a
  \<open>raise\<close> is \<open>Inl\<close>), and its \<open>call\<close> by a function on tensors. Tensor
  elements are idealised as real numbers.
\<close>

subsection \<open>Python values\<close>

datatype error = ValueError string

text \<open>
  Arguments annotated \<open>Text\<close> with default \<open>None\<close>, or \<open>Union[Text, None]\<close>, are
  \<open>string option\<close>; \<open>py_str\<close> is what \<open>'{}'.format(v)\<close> and an f-string field
  \<open>{v}\<close> print for such a value.
\<close>

definition py_str :: "string option \<Rightarrow> string" where
  "py_str v = (case v of None \<Rightarrow> ''None'' | Some s \<Rightarrow> s)"

text \<open>A tensor is a scalar or a list of sub-tensors; the outermost list is the batch.\<close>

datatype 'a tensor = Scalar 'a | Tensor "'a tensor list"

subsection \<open>Framework primitives\<close>

text \<open>
  Modelled from the spec: \<open>tf.nn.relu\<close> and \<open>tf.nn.relu6\<close> are TensorFlow
  primitives, not code of this module. The spec describes them as the "standard
  rectified linear unit" and the "rectified linear unit clamped to [0,6]".
\<close>

definition tf_nn_relu :: "real \<Rightarrow> real" where
  "tf_nn_relu x = (if 0 < x then x else 0)"

definition tf_nn_relu6 :: "real \<Rightarrow> real" where
  "tf_nn_relu6 x = (if 6 < tf_nn_relu x then 6 else tf_nn_relu x)"

text \<open>
  The two transcendental kernels the module calls, \<open>tf.sigmoid\<close> and the fused
  \<open>tf.nn.swish\<close>, are parameters of the model.
\<close>

record tf_kernels =
  tf_sigmoid :: "real \<Rightarrow> real"
  tf_nn_swish :: "real \<Rightarrow> real"

subsection \<open>ActivationFn\<close>

text \<open>
  The callable stored in \<open>self.act\<close>, by identity: the three framework functions
  and the module's own \<open>lambda x: x * tf.sigmoid(x)\<close>.
\<close>

datatype callable = TfNnSwish | LambdaMulSigmoid | TfNnRelu | TfNnRelu6

datatype lambda_layer = Lambda "string option"

record ActivationFn =
  act_type :: "string option"
  act :: callable
  layer :: lambda_layer

definition ActivationFn_init :: "string option \<Rightarrow> string option \<Rightarrow> error + ActivationFn" where
  "ActivationFn_init tag nm =
     (if tag = Some ''swish'' then
        Inr \<lparr>act_type = tag, act = TfNnSwish, layer = Lambda nm\<rparr>
      else if tag = Some ''swish_native'' then
        Inr \<lparr>act_type = tag, act = LambdaMulSigmoid, layer = Lambda nm\<rparr>
      else if tag = Some ''relu'' then
        Inr \<lparr>act_type = tag, act = TfNnRelu, layer = Lambda nm\<rparr>
      else if tag = Some ''relu6'' then
        Inr \<lparr>act_type = tag, act = TfNnRelu6, layer = Lambda nm\<rparr>
      else Inl (ValueError (''Unsupported act_type '' @ py_str tag)))"

fun apply_callable :: "tf_kernels \<Rightarrow> callable \<Rightarrow> real \<Rightarrow> real" where
  "apply_callable tf TfNnSwish x = tf_nn_swish tf x"
| "apply_callable tf LambdaMulSigmoid x = x * tf_sigmoid tf x"
| "apply_callable tf TfNnRelu x = tf_nn_relu x"
| "apply_callable tf TfNnRelu6 x = tf_nn_relu6 x"

text \<open>
  \<open>call\<close> runs the Lambda layer, whose function is \<open>lambda x: self.act(x)\<close>; every
  stored callable works elementwise.
\<close>

definition ActivationFn_call :: "tf_kernels \<Rightarrow> ActivationFn \<Rightarrow> real tensor \<Rightarrow> real tensor" where
  "ActivationFn_call tf self features = map_tensor (apply_callable tf (act self)) features"

definition recognized_act_types :: "string option set" where
  "recognized_act_types = {Some ''swish'', Some ''swish_native'', Some ''relu'', Some ''relu6''}"

text \<open>
  \<open>call\<close> takes any \<open>tf.Tensor\<close>, and a tensor carries an element type besides
  its elements. The module checks nothing about it: the selected kernel does, and
  raises for an element type it is not registered for. Two element types are
  modelled, with the elements of either idealised as reals.
\<close>

datatype tf_dtype = DT_FLOAT | DT_INT32

record tf_tensor =
  dtype :: tf_dtype
  elems :: "real tensor"

datatype framework_error = InvalidArgumentError

text \<open>
  \<open>ActivationFn_call_typed\<close> is \<open>call\<close> on such a tensor. Which element types a
  kernel accepts is the framework's matter and is the parameter \<open>accepts\<close>; the
  kernel's error passes through \<open>call\<close> unchanged, and on an accepted input the
  result keeps the element type and holds the values of \<open>ActivationFn_call\<close>.
\<close>

definition ActivationFn_call_typed ::
  "(callable \<Rightarrow> tf_dtype \<Rightarrow> bool) \<Rightarrow> tf_kernels \<Rightarrow> ActivationFn \<Rightarrow> tf_tensor \<Rightarrow>
   framework_error + tf_tensor" where
  "ActivationFn_call_typed accepts tf self features =
     (if accepts (act self) (dtype features) then
        Inr \<lparr>dtype = dtype features, elems = ActivationFn_call tf self (elems features)\<rparr>
      else Inl InvalidArgumentError)"

text \<open>
  The element types TensorFlow registers its kernels for, on the two modelled
  types: \<open>Sigmoid\<close>, and with it both forms of swish, which multiply by it, for
  floating types only; \<open>Relu\<close> and \<open>Relu6\<close> for every real number type. The table is
  not code of this module; it instantiates \<open>accepts\<close> at concrete inputs.
\<close>

fun tf_registered :: "callable \<Rightarrow> tf_dtype \<Rightarrow> bool" where
  "tf_registered TfNnSwish d = (d = DT_FLOAT)"
| "tf_registered LambdaMulSigmoid d = (d = DT_FLOAT)"
| "tf_registered TfNnRelu d = True"
| "tf_registered TfNnRelu6 d = True"

subsection \<open>BatchNormAct\<close>

datatype initializer = zeros_initializer | ones_initializer

text \<open>
  The two normalization classes come from the module \<open>utils\<close>. A constructed
  collaborator is the class together with the keyword arguments it was given.
\<close>

record bn_kwargs =
  kw_axis :: int
  kw_momentum :: real
  kw_epsilon :: real
  kw_center :: bool
  kw_scale :: bool
  kw_gamma_initializer :: initializer
  kw_name :: string

datatype norm_layer =
    TpuBatchNormalization (kwargs: bn_kwargs)
  | BatchNormalization (kwargs: bn_kwargs)

record BatchNormAct =
  bn_name :: "string option"
  bn_act_type :: "string option"
  training :: bool
  gamma_initializer :: initializer
  axis :: int
  bn_layer :: norm_layer
  bn_act :: ActivationFn

text \<open>The f-string \<open>f'{parent_name}/{name}'\<close>.\<close>

definition qualified_name :: "string option \<Rightarrow> string option \<Rightarrow> string" where
  "qualified_name parent_name nm = py_str parent_name @ ''/'' @ py_str nm"

definition BatchNormAct_init ::
  "bool \<Rightarrow> string option \<Rightarrow> bool \<Rightarrow> string \<Rightarrow> real \<Rightarrow> real \<Rightarrow> bool \<Rightarrow>
   string option \<Rightarrow> string option \<Rightarrow> error + BatchNormAct" where
  "BatchNormAct_init is_training_bn tag init_zero data_format momentum epsilon use_tpu
     nm parent_name =
     (let gamma = (if init_zero then zeros_initializer else ones_initializer);
          ax = (if data_format = ''channels_first'' then 1 else 3);
          kw = \<lparr>kw_axis = ax, kw_momentum = momentum, kw_epsilon = epsilon,
                kw_center = True, kw_scale = True, kw_gamma_initializer = gamma,
                kw_name = qualified_name parent_name nm\<rparr>;
          lay = (if is_training_bn \<and> use_tpu then TpuBatchNormalization kw
                 else BatchNormalization kw)
      in case ActivationFn_init tag parent_name of
           Inl e \<Rightarrow> Inl e
         | Inr a \<Rightarrow>
             Inr \<lparr>bn_name = parent_name, bn_act_type = tag, training = is_training_bn,
                  gamma_initializer = gamma, axis = ax, bn_layer = lay, bn_act = a\<rparr>)"

text \<open>
  \<open>call\<close>: the collaborator's \<open>apply(inputs, training=...)\<close> is the parameter
  \<open>bn_apply\<close>.
\<close>

definition BatchNormAct_call ::
  "(norm_layer \<Rightarrow> real tensor \<Rightarrow> bool \<Rightarrow> real tensor) \<Rightarrow> tf_kernels \<Rightarrow> BatchNormAct \<Rightarrow>
   real tensor \<Rightarrow> real tensor" where
  "BatchNormAct_call bn_apply tf self inputs =
     (let x = bn_apply (bn_layer self) inputs (training self)
      in ActivationFn_call tf (bn_act self) x)"

subsection \<open>DropConnect\<close>

record DropConnect =
  survival_prob :: real
  dc_name :: string

text \<open>
  \<open>has_rank n t\<close>: the tensor \<open>t\<close> has exactly \<open>n\<close> dimensions.
\<close>

fun has_rank :: "nat \<Rightarrow> 'a tensor \<Rightarrow> bool" where
  "has_rank 0 (Scalar v) = True"
| "has_rank (Suc n) (Tensor ts) = list_all (has_rank n) ts"
| "has_rank n t = False"

text \<open>
  In the source the \<open>def call\<close> of \<open>DropConnect\<close> is indented under \<open>__init__\<close>:
  it is a local function of the constructor, created on each construction and
  never called or stored. \<open>DropConnect_init_call\<close> is that local function, with
  the draws of \<open>tf.random_uniform([batch_size, 1, 1, 1])\<close> passed in as
  \<open>random_uniform\<close>, one per batch element. It is modelled on inputs of rank 4,
  where the mask of shape \<open>[batch_size, 1, 1, 1]\<close> multiplies each sample by one
  number, and for a survival probability other than zero. \<open>None\<close> is returned
  outside that domain (an input of another rank, on which the mask broadcasts
  differently or the framework fails; a division by zero), and on a wrong number
  of draws.
\<close>

fun DropConnect_init_call :: "real \<Rightarrow> real list \<Rightarrow> real tensor \<Rightarrow> real tensor option" where
  "DropConnect_init_call p random_uniform (Scalar v) = None"
| "DropConnect_init_call p random_uniform (Tensor samples) =
     (if has_rank 4 (Tensor samples) \<and> p \<noteq> 0 \<and>
         length random_uniform = length samples then
        Some (Tensor (map2
          (\<lambda>u sample. map_tensor (\<lambda>v. v / p * real_of_int \<lfloor>p + u\<rfloor>) sample)
          random_uniform samples))
      else None)"

definition DropConnect_init :: "real \<Rightarrow> string \<Rightarrow> DropConnect" where
  "DropConnect_init p nm = \<lparr>survival_prob = p, dc_name = nm\<rparr>"

text \<open>
  Modelled from the spec: the class itself defines no \<open>call\<close>, so the method is
  the one inherited from \<open>tf.keras.layers.Layer\<close>, which is not code of this
  module; the spec describes it as "an inherited identity/no-op behavior".
\<close>

definition Layer_call :: "real tensor \<Rightarrow> real tensor" where
  "Layer_call inputs = inputs"

definition DropConnect_call :: "DropConnect \<Rightarrow> real tensor \<Rightarrow> real tensor" where
  "DropConnect_call self inputs = Layer_call inputs"

section \<open>Properties\<close>

subsection \<open>Auxiliary facts\<close>

lemma BatchNormAct_init_Inr:
  "BatchNormAct_init is_training_bn tag init_zero data_format momentum epsilon use_tpu
     nm parent_name = Inr self \<Longrightarrow>
   \<exists>a. ActivationFn_init tag parent_name = Inr a \<and>
     self = \<lparr>bn_name = parent_name, bn_act_type = tag, training = is_training_bn,
       gamma_initializer = (if init_zero then zeros_initializer else ones_initializer),
       axis = (if data_format = ''channels_first'' then 1 else 3),
       bn_layer =
         (if is_training_bn \<and> use_tpu then TpuBatchNormalization else BatchNormalization)
           \<lparr>kw_axis = (if data_format = ''channels_first'' then 1 else 3),
            kw_momentum = momentum, kw_epsilon = epsilon, kw_center = True,
            kw_scale = True,
            kw_gamma_initializer =
              (if init_zero then zeros_initializer else ones_initializer),
            kw_name = qualified_name parent_name nm\<rparr>,
       bn_act = a\<rparr>"
  by (auto simp add: BatchNormAct_init_def Let_def split: sum.splits)

lemma tf_nn_relu6_min_max: "tf_nn_relu6 x = min (max x 0) 6"
  by (simp add: tf_nn_relu6_def tf_nn_relu_def min_def max_def)

subsection \<open>ActivationFn\<close>

text \<open>
  The specification's tag names are read as the source tags in their order of
  appearance: identity-swish is \<open>'swish'\<close>, native-swish is \<open>'swish_native'\<close>,
  relu is \<open>'relu'\<close> and relu-capped-at-6 is \<open>'relu6'\<close>.

  C2, as stated, fails: it pairs identity-swish with the primitive composition
  \<open>x * sigmoid(x)\<close> and native-swish with the fused framework op. The
  constructor stores the fused \<open>tf.nn.swish\<close> for \<open>'swish'\<close> and the lambda
  \<open>x * tf.sigmoid(x)\<close> for \<open>'swish_native'\<close>, so the claimed pairing does not
  hold for the default layer name.
\<close>

theorem swish_tags_claimed_pairing_fails:
  "\<not> (map_sum id act (ActivationFn_init (Some ''swish'') (Some ''activation_fn'')) =
        Inr LambdaMulSigmoid \<and>
      map_sum id act (ActivationFn_init (Some ''swish_native'') (Some ''activation_fn'')) =
        Inr TfNnSwish)"
  by (simp add: ActivationFn_init_def)

text \<open>
  C2, amended. The pairing is the other way round: the tag \<open>'swish'\<close> selects the
  framework's fused swish, and the tag \<open>'swish_native'\<close> selects the product
  \<open>x * sigmoid(x)\<close> computed from primitive ops; \<open>call\<close> applies the selected
  function to every element.
\<close>

theorem swish_tags_pairing:
  "(\<exists>self. ActivationFn_init (Some ''swish'') nm = Inr self \<and> act self = TfNnSwish \<and>
      ActivationFn_call tf self t = map_tensor (tf_nn_swish tf) t) \<and>
   (\<exists>self. ActivationFn_init (Some ''swish_native'') nm = Inr self \<and>
      act self = LambdaMulSigmoid \<and>
      ActivationFn_call tf self t = map_tensor (\<lambda>x. x * tf_sigmoid tf x) t)"
proof -
  have fused: "apply_callable tf TfNnSwish = tf_nn_swish tf"
    by (rule ext) simp
  have prim: "apply_callable tf LambdaMulSigmoid = (\<lambda>x. x * tf_sigmoid tf x)"
    by (rule ext) simp
  show ?thesis
    by (simp add: ActivationFn_init_def ActivationFn_call_def fused prim)
qed

text \<open>
  C3, as stated, fails in its last clause, that for every recognized tag the
  apply operation never fails. The layer built for the recognized tag
  \<open>'swish_native'\<close> computes \<open>x * tf.sigmoid(x)\<close>, and on an \<open>int32\<close> tensor the
  sigmoid kernel raises: \<open>call\<close> fails at apply time.
\<close>

theorem ActivationFn_call_fails_on_int32:
  "Some ''swish_native'' \<in> recognized_act_types \<and>
   ActivationFn_init (Some ''swish_native'') (Some ''activation_fn'') =
     Inr \<lparr>act_type = Some ''swish_native'', act = LambdaMulSigmoid,
          layer = Lambda (Some ''activation_fn'')\<rparr> \<and>
   ActivationFn_call_typed tf_registered
     \<lparr>tf_sigmoid = (\<lambda>x. 1 / (1 + exp (- x))), tf_nn_swish = (\<lambda>x. x / (1 + exp (- x)))\<rparr>
     \<lparr>act_type = Some ''swish_native'', act = LambdaMulSigmoid,
      layer = Lambda (Some ''activation_fn'')\<rparr>
     \<lparr>dtype = DT_INT32, elems = Tensor [Scalar 1, Scalar 2]\<rparr> =
     Inl InvalidArgumentError"
  by (simp add: recognized_act_types_def ActivationFn_init_def ActivationFn_call_typed_def)

text \<open>
  C3, amended. For a tag outside the four recognized ones (Python's \<open>None\<close>
  included) the constructor raises \<open>ValueError\<close> with the message
  \<open>'Unsupported act_type '\<close> followed by the tag, and returns no object. For a
  recognized tag it returns an object holding the tag and the named Lambda
  layer, and the apply operation of that object has no failure of its own: it
  returns the elementwise result whenever the selected framework kernel accepts
  the element type of the input, and fails, with the kernel's error, only when
  the kernel rejects it.
\<close>

theorem ActivationFn_init_error_or_object:
  "(tag \<notin> recognized_act_types \<longrightarrow>
      ActivationFn_init tag nm = Inl (ValueError (''Unsupported act_type '' @ py_str tag))) \<and>
   (tag \<in> recognized_act_types \<longrightarrow>
      (\<exists>self. ActivationFn_init tag nm = Inr self \<and> act_type self = tag \<and>
         layer self = Lambda nm \<and>
         (accepts (act self) (dtype features) \<longrightarrow>
            ActivationFn_call_typed accepts tf self features =
              Inr \<lparr>dtype = dtype features,
                   elems = map_tensor (apply_callable tf (act self)) (elems features)\<rparr>) \<and>
         (\<not> accepts (act self) (dtype features) \<longrightarrow>
            ActivationFn_call_typed accepts tf self features = Inl InvalidArgumentError)))"
  by (auto simp add: ActivationFn_init_def recognized_act_types_def
      ActivationFn_call_typed_def ActivationFn_call_def)

text \<open>
  The theorem at the unrecognized tag \<open>'gelu'\<close>, at the recognized tag \<open>'relu6'\<close>
  applied to the floating tensor \<open>[-2, 3, 9]\<close>, and at the recognized tag
  \<open>'swish'\<close> applied to an \<open>int32\<close> tensor.
\<close>

theorem ActivationFn_init_error_or_object_witness:
  "Some ''gelu'' \<notin> recognized_act_types \<and>
   ActivationFn_init (Some ''gelu'') (Some ''activation_fn'') =
     Inl (ValueError ''Unsupported act_type gelu'') \<and>
   Some ''relu6'' \<in> recognized_act_types \<and>
   (\<exists>self. ActivationFn_init (Some ''relu6'') (Some ''activation_fn'') = Inr self \<and>
      act_type self = Some ''relu6'' \<and> layer self = Lambda (Some ''activation_fn'') \<and>
      tf_registered (act self) DT_FLOAT \<and>
      ActivationFn_call_typed tf_registered
        \<lparr>tf_sigmoid = (\<lambda>x. 1 / (1 + exp (- x))), tf_nn_swish = (\<lambda>x. x / (1 + exp (- x)))\<rparr>
        self \<lparr>dtype = DT_FLOAT, elems = Tensor [Scalar (- 2), Scalar 3, Scalar 9]\<rparr> =
        Inr \<lparr>dtype = DT_FLOAT, elems = Tensor [Scalar 0, Scalar 3, Scalar 6]\<rparr>) \<and>
   Some ''swish'' \<in> recognized_act_types \<and>
   (\<exists>self. ActivationFn_init (Some ''swish'') (Some ''activation_fn'') = Inr self \<and>
      \<not> tf_registered (act self) DT_INT32 \<and>
      ActivationFn_call_typed tf_registered
        \<lparr>tf_sigmoid = (\<lambda>x. 1 / (1 + exp (- x))), tf_nn_swish = (\<lambda>x. x / (1 + exp (- x)))\<rparr>
        self \<lparr>dtype = DT_INT32, elems = Tensor [Scalar 1, Scalar 2]\<rparr> =
        Inl InvalidArgumentError)"
proof -
  have unknown: "Some ''gelu'' \<notin> recognized_act_types"
    and known6: "Some ''relu6'' \<in> recognized_act_types"
    and knowns: "Some ''swish'' \<in> recognized_act_types"
    by (simp_all add: recognized_act_types_def)
  have i6: "ActivationFn_init (Some ''relu6'') (Some ''activation_fn'') =
      Inr \<lparr>act_type = Some ''relu6'', act = TfNnRelu6, layer = Lambda (Some ''activation_fn'')\<rparr>"
    and isw: "ActivationFn_init (Some ''swish'') (Some ''activation_fn'') =
      Inr \<lparr>act_type = Some ''swish'', act = TfNnSwish, layer = Lambda (Some ''activation_fn'')\<rparr>"
    by (simp_all add: ActivationFn_init_def)
  from ActivationFn_init_error_or_object [of "Some ''gelu''" "Some ''activation_fn''"] unknown
  have e: "ActivationFn_init (Some ''gelu'') (Some ''activation_fn'') =
      Inl (ValueError ''Unsupported act_type gelu'')"
    by (simp add: py_str_def)
  from ActivationFn_init_error_or_object [of "Some ''relu6''" "Some ''activation_fn''"
      tf_registered "\<lparr>dtype = DT_FLOAT, elems = Tensor [Scalar (- 2), Scalar 3, Scalar 9]\<rparr>"
      "\<lparr>tf_sigmoid = (\<lambda>x. 1 / (1 + exp (- x))), tf_nn_swish = (\<lambda>x. x / (1 + exp (- x)))\<rparr>"]
    known6 i6
  have c6: "ActivationFn_call_typed tf_registered
        \<lparr>tf_sigmoid = (\<lambda>x. 1 / (1 + exp (- x))), tf_nn_swish = (\<lambda>x. x / (1 + exp (- x)))\<rparr>
        \<lparr>act_type = Some ''relu6'', act = TfNnRelu6, layer = Lambda (Some ''activation_fn'')\<rparr>
        \<lparr>dtype = DT_FLOAT, elems = Tensor [Scalar (- 2), Scalar 3, Scalar 9]\<rparr> =
        Inr \<lparr>dtype = DT_FLOAT, elems = Tensor [Scalar 0, Scalar 3, Scalar 6]\<rparr>"
    by (simp add: tf_nn_relu6_def tf_nn_relu_def)
  from ActivationFn_init_error_or_object [of "Some ''swish''" "Some ''activation_fn''"
      tf_registered "\<lparr>dtype = DT_INT32, elems = Tensor [Scalar 1, Scalar 2]\<rparr>"
      "\<lparr>tf_sigmoid = (\<lambda>x. 1 / (1 + exp (- x))), tf_nn_swish = (\<lambda>x. x / (1 + exp (- x)))\<rparr>"]
    knowns isw
  have cs: "ActivationFn_call_typed tf_registered
        \<lparr>tf_sigmoid = (\<lambda>x. 1 / (1 + exp (- x))), tf_nn_swish = (\<lambda>x. x / (1 + exp (- x)))\<rparr>
        \<lparr>act_type = Some ''swish'', act = TfNnSwish, layer = Lambda (Some ''activation_fn'')\<rparr>
        \<lparr>dtype = DT_INT32, elems = Tensor [Scalar 1, Scalar 2]\<rparr> =
        Inl InvalidArgumentError"
    by simp
  show ?thesis
    using unknown known6 knowns e by (simp add: i6 isw c6 cs)
qed

text \<open>
  C7. The layer constructed for the tag \<open>'relu6'\<close> maps every element \<open>x\<close> of
  its input to \<open>min (max x 0) 6\<close>; on \<open>[-2, 3, 9]\<close> it returns \<open>[0, 3, 6]\<close>.
\<close>

theorem relu6_call_min_max:
  "\<exists>self. ActivationFn_init (Some ''relu6'') nm = Inr self \<and>
     ActivationFn_call tf self t = map_tensor (\<lambda>x. min (max x 0) 6) t \<and>
     ActivationFn_call tf self (Tensor [Scalar (- 2), Scalar 3, Scalar 9]) =
       Tensor [Scalar 0, Scalar 3, Scalar 6]"
proof -
  have r6: "apply_callable tf TfNnRelu6 = (\<lambda>x. min (max x 0) 6)"
    by (rule ext) (simp add: tf_nn_relu6_min_max)
  show ?thesis
    by (simp add: ActivationFn_init_def ActivationFn_call_def r6)
qed

subsection \<open>BatchNormAct\<close>

text \<open>
  C9. Constructing \<open>BatchNormAct\<close> with \<open>act_type=None\<close> raises the unsupported
  tag \<open>ValueError\<close> at construction time, whatever the other arguments are: the
  block always builds an \<open>ActivationFn\<close> from the tag, and \<open>None\<close> is none of the
  four recognized tags.
\<close>

theorem BatchNormAct_init_None_raises:
  "BatchNormAct_init is_training_bn None init_zero data_format momentum epsilon use_tpu
     nm parent_name = Inl (ValueError ''Unsupported act_type None'')"
  by (simp add: BatchNormAct_init_def ActivationFn_init_def py_str_def)

text \<open>
  C4, as stated, fails in its last part: the inner \<open>ActivationFn\<close> is not built
  with the qualified name \<open>f'{parent_name}/{name}'\<close>. The constructor passes
  \<open>name=parent_name\<close>, so for parent name \<open>'blk'\<close> and name \<open>'bn'\<close> the held
  activation differs from the one built with \<open>'blk/bn'\<close>.
\<close>

theorem BatchNormAct_act_not_built_with_qualified_name:
  "map_sum id bn_act
     (BatchNormAct_init True (Some ''relu'') False ''channels_last'' (99 / 100) (1 / 1000)
        False (Some ''bn'') (Some ''blk'')) \<noteq>
   ActivationFn_init (Some ''relu'') (Some (qualified_name (Some ''blk'') (Some ''bn'')))"
  by (simp add: BatchNormAct_init_def ActivationFn_init_def qualified_name_def py_str_def)

text \<open>
  C4, amended. \<open>call\<close> first normalizes the input with the collaborator selected
  at construction and the stored training flag, then passes the result through
  the held \<open>ActivationFn\<close>, which was built from the same activation tag and the
  parent name (not the qualified name).
\<close>

theorem BatchNormAct_call_normalizes_then_activates:
  assumes "BatchNormAct_init is_training_bn tag init_zero data_format momentum epsilon
             use_tpu nm parent_name = Inr self"
  shows "training self = is_training_bn \<and>
         ActivationFn_init tag parent_name = Inr (bn_act self) \<and>
         BatchNormAct_call bn_apply tf self inputs =
           ActivationFn_call tf (bn_act self)
             (bn_apply (bn_layer self) inputs is_training_bn)"
proof -
  from BatchNormAct_init_Inr [OF assms]
  have "training self = is_training_bn" and "ActivationFn_init tag parent_name = Inr (bn_act self)"
    by auto
  then show ?thesis
    by (simp add: BatchNormAct_call_def)
qed

text \<open>
  The theorem at a block with tag \<open>'relu'\<close>, with a collaborator that subtracts
  one from every element: \<open>[-2, 3]\<close> is normalized to \<open>[-3, 2]\<close> and then
  activated to \<open>[0, 2]\<close>.
\<close>

theorem BatchNormAct_call_normalizes_then_activates_witness:
  "\<exists>self.
     BatchNormAct_init True (Some ''relu'') False ''channels_last'' (99 / 100) (1 / 1000)
       False (Some ''bn'') (Some ''blk'') = Inr self \<and>
     training self = True \<and>
     ActivationFn_init (Some ''relu'') (Some ''blk'') = Inr (bn_act self) \<and>
     BatchNormAct_call (\<lambda>lay x tr. map_tensor (\<lambda>v. v - 1) x)
       \<lparr>tf_sigmoid = (\<lambda>x. 1 / (1 + exp (- x))), tf_nn_swish = (\<lambda>x. x / (1 + exp (- x)))\<rparr>
       self (Tensor [Scalar (- 2), Scalar 3]) = Tensor [Scalar 0, Scalar 2]"
proof -
  obtain self where h:
    "BatchNormAct_init True (Some ''relu'') False ''channels_last'' (99 / 100) (1 / 1000)
       False (Some ''bn'') (Some ''blk'') = Inr self"
    by (simp add: BatchNormAct_init_def ActivationFn_init_def)
  have a: "ActivationFn_init (Some ''relu'') (Some ''blk'') =
      Inr \<lparr>act_type = Some ''relu'', act = TfNnRelu, layer = Lambda (Some ''blk'')\<rparr>"
    by (simp add: ActivationFn_init_def)
  from BatchNormAct_call_normalizes_then_activates [OF h,
      of "\<lambda>lay x tr. map_tensor (\<lambda>v. v - 1) x"
         "\<lparr>tf_sigmoid = (\<lambda>x. 1 / (1 + exp (- x))), tf_nn_swish = (\<lambda>x. x / (1 + exp (- x)))\<rparr>"
         "Tensor [Scalar (- 2), Scalar 3]"] a h
  have c: "BatchNormAct_call (\<lambda>lay x tr. map_tensor (\<lambda>v. v - 1) x)
       \<lparr>tf_sigmoid = (\<lambda>x. 1 / (1 + exp (- x))), tf_nn_swish = (\<lambda>x. x / (1 + exp (- x)))\<rparr>
       self (Tensor [Scalar (- 2), Scalar 3]) =
     ActivationFn_call
       \<lparr>tf_sigmoid = (\<lambda>x. 1 / (1 + exp (- x))), tf_nn_swish = (\<lambda>x. x / (1 + exp (- x)))\<rparr>
       (bn_act self) (Tensor [Scalar (- 3), Scalar 2])"
    and t: "training self = True"
    and b: "bn_act self =
      \<lparr>act_type = Some ''relu'', act = TfNnRelu, layer = Lambda (Some ''blk'')\<rparr>"
    by simp_all
  show ?thesis
    using h a by (simp add: c t b ActivationFn_call_def tf_nn_relu_def)
qed

text \<open>
  C5. The constructed collaborator is \<open>TpuBatchNormalization\<close> exactly when both
  \<open>is_training_bn\<close> and \<open>use_tpu\<close> hold, and \<open>BatchNormalization\<close> otherwise; in
  both cases it receives the same keyword arguments: the block's axis, the
  momentum, the epsilon, \<open>center=True\<close>, \<open>scale=True\<close>, the block's gamma
  initializer and the qualified name.
\<close>

theorem BatchNormAct_init_selects_collaborator:
  assumes "BatchNormAct_init is_training_bn tag init_zero data_format momentum epsilon
             use_tpu nm parent_name = Inr self"
  shows "bn_layer self =
           (if is_training_bn \<and> use_tpu then TpuBatchNormalization else BatchNormalization)
             \<lparr>kw_axis = axis self, kw_momentum = momentum, kw_epsilon = epsilon,
              kw_center = True, kw_scale = True,
              kw_gamma_initializer = gamma_initializer self,
              kw_name = qualified_name parent_name nm\<rparr>"
  using BatchNormAct_init_Inr [OF assms] by auto

text \<open>
  The theorem at one construction that selects the accelerator class and one that
  does not (\<open>use_tpu\<close> set, \<open>is_training_bn\<close> unset).
\<close>

theorem BatchNormAct_init_selects_collaborator_witness:
  "(\<exists>self.
      BatchNormAct_init True (Some ''relu'') False ''channels_last'' (99 / 100) (1 / 1000)
        True (Some ''bn'') (Some ''blk'') = Inr self \<and>
      bn_layer self = TpuBatchNormalization
        \<lparr>kw_axis = 3, kw_momentum = 99 / 100, kw_epsilon = 1 / 1000, kw_center = True,
         kw_scale = True, kw_gamma_initializer = ones_initializer, kw_name = ''blk/bn''\<rparr>) \<and>
   (\<exists>self.
      BatchNormAct_init False (Some ''relu'') True ''channels_first'' (99 / 100) (1 / 1000)
        True (Some ''bn'') (Some ''blk'') = Inr self \<and>
      bn_layer self = BatchNormalization
        \<lparr>kw_axis = 1, kw_momentum = 99 / 100, kw_epsilon = 1 / 1000, kw_center = True,
         kw_scale = True, kw_gamma_initializer = zeros_initializer, kw_name = ''blk/bn''\<rparr>)"
proof -
  obtain s1 where h1:
    "BatchNormAct_init True (Some ''relu'') False ''channels_last'' (99 / 100) (1 / 1000)
       True (Some ''bn'') (Some ''blk'') = Inr s1"
    by (simp add: BatchNormAct_init_def ActivationFn_init_def)
  obtain s2 where h2:
    "BatchNormAct_init False (Some ''relu'') True ''channels_first'' (99 / 100) (1 / 1000)
       True (Some ''bn'') (Some ''blk'') = Inr s2"
    by (simp add: BatchNormAct_init_def ActivationFn_init_def)
  have ax1: "axis s1 = 3" and g1: "gamma_initializer s1 = ones_initializer"
    using h1 by (auto simp add: BatchNormAct_init_def ActivationFn_init_def)
  have ax2: "axis s2 = 1" and g2: "gamma_initializer s2 = zeros_initializer"
    using h2 by (auto simp add: BatchNormAct_init_def ActivationFn_init_def)
  from BatchNormAct_init_selects_collaborator [OF h1]
    BatchNormAct_init_selects_collaborator [OF h2] h1 h2 ax1 g1 ax2 g2
  show ?thesis
    by (simp add: qualified_name_def py_str_def)
qed

text \<open>
  C6. The gamma initializer of a constructed block is the zeros initializer if
  and only if \<open>init_zero\<close> is true, and the ones initializer if and only if it is
  false; the collaborator is given that same initializer.
\<close>

theorem BatchNormAct_init_gamma_initializer:
  assumes "BatchNormAct_init is_training_bn tag init_zero data_format momentum epsilon
             use_tpu nm parent_name = Inr self"
  shows "(gamma_initializer self = zeros_initializer) = init_zero \<and>
         (gamma_initializer self = ones_initializer) = (\<not> init_zero) \<and>
         kw_gamma_initializer (kwargs (bn_layer self)) = gamma_initializer self"
  using BatchNormAct_init_Inr [OF assms] by (cases init_zero) auto

text \<open>
  The theorem at \<open>init_zero=True\<close> and at \<open>init_zero=False\<close>.
\<close>

theorem BatchNormAct_init_gamma_initializer_witness:
  "(\<exists>self.
      BatchNormAct_init True (Some ''swish'') True ''channels_last'' (99 / 100) (1 / 1000)
        False (Some ''bn'') (Some ''blk'') = Inr self \<and>
      gamma_initializer self = zeros_initializer \<and>
      kw_gamma_initializer (kwargs (bn_layer self)) = zeros_initializer) \<and>
   (\<exists>self.
      BatchNormAct_init True (Some ''swish'') False ''channels_last'' (99 / 100) (1 / 1000)
        False (Some ''bn'') (Some ''blk'') = Inr self \<and>
      gamma_initializer self = ones_initializer \<and>
      kw_gamma_initializer (kwargs (bn_layer self)) = ones_initializer)"
proof -
  obtain s1 where h1:
    "BatchNormAct_init True (Some ''swish'') True ''channels_last'' (99 / 100) (1 / 1000)
       False (Some ''bn'') (Some ''blk'') = Inr s1"
    by (simp add: BatchNormAct_init_def ActivationFn_init_def)
  obtain s2 where h2:
    "BatchNormAct_init True (Some ''swish'') False ''channels_last'' (99 / 100) (1 / 1000)
       False (Some ''bn'') (Some ''blk'') = Inr s2"
    by (simp add: BatchNormAct_init_def ActivationFn_init_def)
  from BatchNormAct_init_gamma_initializer [OF h1]
    BatchNormAct_init_gamma_initializer [OF h2] h1 h2
  show ?thesis
    by simp
qed

text \<open>
  C10. \<open>data_format\<close> is not validated: for every string other than
  \<open>'channels_first'\<close>, whenever the activation tag is accepted the construction
  succeeds with axis 3, for the block and for the collaborator, and yields the
  very block that \<open>'channels_last'\<close> yields.
\<close>

theorem BatchNormAct_init_data_format_unchecked:
  assumes "data_format \<noteq> ''channels_first''"
    and "ActivationFn_init tag parent_name = Inr a"
  shows "\<exists>self.
           BatchNormAct_init is_training_bn tag init_zero data_format momentum epsilon
             use_tpu nm parent_name = Inr self \<and>
           axis self = 3 \<and> kw_axis (kwargs (bn_layer self)) = 3 \<and>
           BatchNormAct_init is_training_bn tag init_zero ''channels_last'' momentum epsilon
             use_tpu nm parent_name = Inr self"
  using assms by (simp add: BatchNormAct_init_def Let_def)

text \<open>
  The theorem at the misspelled format \<open>'chanels_frist'\<close>.
\<close>

theorem BatchNormAct_init_data_format_unchecked_witness:
  "''chanels_frist'' \<noteq> ''channels_first'' \<and>
   ActivationFn_init (Some ''relu'') (Some ''blk'') =
     Inr \<lparr>act_type = Some ''relu'', act = TfNnRelu, layer = Lambda (Some ''blk'')\<rparr> \<and>
   (\<exists>self.
      BatchNormAct_init True (Some ''relu'') False ''chanels_frist'' (99 / 100) (1 / 1000)
        False (Some ''bn'') (Some ''blk'') = Inr self \<and>
      axis self = 3 \<and> kw_axis (kwargs (bn_layer self)) = 3 \<and>
      BatchNormAct_init True (Some ''relu'') False ''channels_last'' (99 / 100) (1 / 1000)
        False (Some ''bn'') (Some ''blk'') = Inr self)"
proof -
  have d: "''chanels_frist'' \<noteq> ''channels_first''"
    by simp
  have a: "ActivationFn_init (Some ''relu'') (Some ''blk'') =
      Inr \<lparr>act_type = Some ''relu'', act = TfNnRelu, layer = Lambda (Some ''blk'')\<rparr>"
    by (simp add: ActivationFn_init_def)
  from BatchNormAct_init_data_format_unchecked [OF d a,
      of True False "99 / 100" "1 / 1000" False "Some ''bn''"] d a
  show ?thesis
    by simp
qed

subsection \<open>DropConnect\<close>

text \<open>
  C1 describes the masking algorithm as the layer's \<open>call\<close>. The algorithm is
  the body of the function local to \<open>__init__\<close>; the layer's \<open>call\<close> is the
  inherited one. With survival probability \<open>1/2\<close> and a batch of one sample
  holding \<open>2\<close>, the layer returns its input, while the local function returns
  \<open>0\<close> for the draw \<open>1/5\<close> (sample dropped) and \<open>4\<close> for the draw \<open>3/5\<close>
  (sample kept and rescaled).
\<close>

theorem DropConnect_call_returns_inputs:
  "DropConnect_call (DropConnect_init (1 / 2) ''drop_connect'')
     (Tensor [Tensor [Tensor [Tensor [Scalar 2]]]]) =
     Tensor [Tensor [Tensor [Tensor [Scalar 2]]]] \<and>
   DropConnect_init_call (1 / 2) [1 / 5] (Tensor [Tensor [Tensor [Tensor [Scalar 2]]]]) =
     Some (Tensor [Tensor [Tensor [Tensor [Scalar 0]]]]) \<and>
   DropConnect_init_call (1 / 2) [3 / 5] (Tensor [Tensor [Tensor [Tensor [Scalar 2]]]]) =
     Some (Tensor [Tensor [Tensor [Tensor [Scalar 4]]]])"
  by (simp add: DropConnect_call_def Layer_call_def eval_nat_numeral)

end
